theory Spec2Isabelle
  imports Complex_Main "HOL-Library.AList"
begin

section \<open>JavaScript values\<close>

text \<open>
  The front end is JavaScript. A GeoJSON position is a list of numbers, a linear ring a list
  of positions, and the \<open>coordinates\<close> of a polygon a list of rings. The numbers of a
  document are reals.
\<close>

type_synonym position = "real list"
type_synonym ring = "position list"

record geometry =
  type :: string
  coordinates :: "ring list"

datatype jsval = JUndefined | JNull | JNum real | JStr string | JGeometry geometry

text \<open>
  An object is its list of own properties in insertion order. Reading a property that the
  object does not have gives \<open>undefined\<close>; assigning \<open>obj[key] = v\<close> is \<^const>\<open>AList.update\<close>,
  which replaces the value in place or appends the new key.
\<close>

type_synonym object = "(string \<times> jsval) list"

definition property :: "object \<Rightarrow> string \<Rightarrow> jsval" where
  "property obj key = (case map_of obj key of Some v \<Rightarrow> v | None \<Rightarrow> JUndefined)"

text \<open>A string that may be \<open>null\<close> or \<open>undefined\<close> is truthy when it is present and not empty.\<close>

definition truthy :: "string option \<Rightarrow> bool" where
  "truthy s = (case s of None \<Rightarrow> False | Some t \<Rightarrow> t \<noteq> [])"

text \<open>\<open>a || b\<close> on such a string, with a string literal on the right.\<close>

definition or_else :: "string option \<Rightarrow> string \<Rightarrow> string" where
  "or_else s d = (case s of None \<Rightarrow> d | Some t \<Rightarrow> if t \<noteq> [] then t else d)"

text \<open>
  The result of a computation is a number of the language: a real, or one of the three
  values that are no real, \<open>NaN\<close> and the two infinities. Rounding is not modelled.
\<close>

datatype number = NaN | NegInfinity | Finite real | Infinity

text \<open>\<open>a < b\<close>; \<open>a > b\<close> is \<open>b < a\<close>. A comparison with \<open>NaN\<close> on either side is false.\<close>

fun less_number :: "number \<Rightarrow> number \<Rightarrow> bool" where
  "less_number NaN b = False"
| "less_number a NaN = False"
| "less_number a NegInfinity = False"
| "less_number Infinity b = False"
| "less_number NegInfinity b = True"
| "less_number (Finite x) Infinity = True"
| "less_number (Finite x) (Finite y) = (x < y)"

text \<open>\<open>a / d\<close> for a literal \<open>d\<close> greater than 0.\<close>

fun divide_number :: "number \<Rightarrow> real \<Rightarrow> number" where
  "divide_number (Finite x) d = Finite (x / d)"
| "divide_number a d = a"

text \<open>
  A value parsed from JSON, as the body of a response is. Reading a property gives
  \<open>undefined\<close> (\<open>None\<close>) unless the value is an object that has it; on \<open>null\<close> and \<open>undefined\<close>
  themselves the read throws a \<open>TypeError\<close>, which is left to the code that reads.
\<close>

datatype json =
  JsonNull | JsonBool bool | JsonNum real | JsonStr string
  | JsonArray "json list" | JsonObject "(string \<times> json) list"

definition read_property :: "json \<Rightarrow> string \<Rightarrow> json option" where
  "read_property v key = (case v of JsonObject kvs \<Rightarrow> map_of kvs key | _ \<Rightarrow> None)"

text \<open>Truthiness: \<open>undefined\<close>, \<open>null\<close>, \<open>false\<close>, 0 and the empty string are falsy.\<close>

definition truthy_json :: "json option \<Rightarrow> bool" where
  "truthy_json v =
    (case v of
       None \<Rightarrow> False
     | Some JsonNull \<Rightarrow> False
     | Some (JsonBool b) \<Rightarrow> b
     | Some (JsonNum x) \<Rightarrow> x \<noteq> 0
     | Some (JsonStr s) \<Rightarrow> s \<noteq> []
     | Some (JsonArray xs) \<Rightarrow> True
     | Some (JsonObject kvs) \<Rightarrow> True)"

fun join_comma :: "string list \<Rightarrow> string" where
  "join_comma [] = []"
| "join_comma [s] = s"
| "join_comma (s # t # ss) = s @ '','' @ join_comma (t # ss)"

text \<open>
  The conversion to a string that \<open>new Error(v)\<close> applies to its argument; \<open>num\<close> converts
  numbers. An array is the list of its converted elements, separated by commas, with
  \<open>null\<close> as the empty string; an object is \<open>[object Object]\<close>.
\<close>

fun to_string :: "(number \<Rightarrow> string) \<Rightarrow> json \<Rightarrow> string" where
  "to_string num JsonNull = ''null''"
| "to_string num (JsonBool b) = (if b then ''true'' else ''false'')"
| "to_string num (JsonNum x) = num (Finite x)"
| "to_string num (JsonStr s) = s"
| "to_string num (JsonArray xs) =
     join_comma (map (\<lambda>x. if x = JsonNull then [] else to_string num x) xs)"
| "to_string num (JsonObject kvs) = ''[object Object]''"

text \<open>
  What the code takes from outside the repository: \<open>turf.polygon\<close> and \<open>turf.area\<close> of the
  turf library (\<open>None\<close> when the call throws), the number formatting of the language,
  \<open>Number.prototype.toFixed\<close> and the conversion of a number to a string, and the message
  of the \<open>TypeError\<close> that the engine raises when a property of \<open>undefined\<close> (\<open>None\<close>) or
  \<open>null\<close> is read.
\<close>

record 'p platform =
  turf_polygon :: "ring list \<Rightarrow> 'p option"
  turf_area :: "'p \<Rightarrow> number option"
  toFixed :: "number \<Rightarrow> nat \<Rightarrow> string"
  String :: "number \<Rightarrow> string"
  cannot_read :: "json option \<Rightarrow> string"

text \<open>The two characters of the messages that are not ASCII, as their UTF-8 bytes.\<close>

definition superscript_two :: string where
  "superscript_two = [CHR 0xC2, CHR 0xB2]"

definition multiplication_sign :: string where
  "multiplication_sign = [CHR 0xC3, CHR 0x97]"


section \<open>utils/validator.js\<close>

record validation =
  isValid :: bool
  error :: "string option"
  area :: number

definition MAX_AREA_KM2 :: real where
  "MAX_AREA_KM2 = 2500"

definition MIN_AREA_KM2 :: real where
  "MIN_AREA_KM2 = 0.01"

text \<open>
  The body of the \<open>try\<close> block of \<open>validateAOI\<close>: \<open>None\<close> when a call of the turf library throws,
  which is the only way the block can be left by an exception.
\<close>

definition validateAOI_try :: "('p, 'z) platform_scheme \<Rightarrow> geometry option \<Rightarrow> validation option" where
  "validateAOI_try E geometry =
    (case geometry of
       None \<Rightarrow> Some \<lparr>isValid = False, error = Some ''No geometry provided'', area = Finite 0\<rparr>
     | Some g \<Rightarrow>
        (case turf_polygon E (coordinates g) of
           None \<Rightarrow> None
         | Some polygon \<Rightarrow>
            (case turf_area E polygon of
               None \<Rightarrow> None
             | Some areaM2 \<Rightarrow>
                (let areaKm2 = divide_number areaM2 1000000 in
                 if less_number (Finite MAX_AREA_KM2) areaKm2 then
                   Some \<lparr>isValid = False,
                         error = Some (''AOI too large ('' @ toFixed E areaKm2 2 @ '' km'' @ superscript_two
                                   @ ''). Maximum allowed: 2500 km'' @ superscript_two
                                   @ '' (50'' @ multiplication_sign @ ''50 km)''),
                         area = areaKm2\<rparr>
                 else if less_number areaKm2 (Finite MIN_AREA_KM2) then
                   Some \<lparr>isValid = False,
                         error = Some (''AOI too small ('' @ toFixed E areaKm2 4 @ '' km'' @ superscript_two
                                   @ ''). Minimum allowed: 0.01 km'' @ superscript_two),
                         area = areaKm2\<rparr>
                 else
                   Some \<lparr>isValid = True, error = None, area = areaKm2\<rparr>))))"

text \<open>The \<open>catch\<close> clause turns every exception into the result \<open>Invalid geometry\<close>.\<close>

definition validateAOI :: "('p, 'z) platform_scheme \<Rightarrow> geometry option \<Rightarrow> validation" where
  "validateAOI E geometry =
    (case validateAOI_try E geometry of
       Some r \<Rightarrow> r
     | None \<Rightarrow> \<lparr>isValid = False, error = Some ''Invalid geometry'', area = Finite 0\<rparr>)"


section \<open>components/ProgressIndicator.js\<close>

record stage_info =
  "text" :: string
  progress :: int

text \<open>The \<open>switch\<close> of \<open>getStageInfo\<close>; the stage is a string or \<open>null\<close>.\<close>

definition getStageInfo :: "string option \<Rightarrow> stage_info" where
  "getStageInfo stage =
    (if stage = Some ''imagery'' then \<lparr>text = ''Processing imagery...'', progress = 33\<rparr>
     else if stage = Some ''filters'' then \<lparr>text = ''Applying filters...'', progress = 66\<rparr>
     else if stage = Some ''vectorizing'' then \<lparr>text = ''Generating results...'', progress = 100\<rparr>
     else \<lparr>text = ''Processing...'', progress = 0\<rparr>)"

text \<open>
  A second revision of the same component (the first of the unnamed source files) knows one
  more stage, \<open>coldstart\<close>, whose record has a \<open>subtext\<close> as well.
\<close>

record stage_info_coldstart = stage_info +
  subtext :: "string option"

definition getStageInfo_coldstart :: "string option \<Rightarrow> stage_info_coldstart" where
  "getStageInfo_coldstart stage =
    (if stage = Some ''coldstart'' then
       \<lparr>text = ''Waking up backend server...'', progress = 10,
        subtext = Some ''First request may take 30-60 seconds''\<rparr>
     else if stage = Some ''imagery'' then
       \<lparr>text = ''Processing imagery...'', progress = 33, subtext = None\<rparr>
     else if stage = Some ''filters'' then
       \<lparr>text = ''Applying filters...'', progress = 66, subtext = None\<rparr>
     else if stage = Some ''vectorizing'' then
       \<lparr>text = ''Generating results...'', progress = 100, subtext = None\<rparr>
     else \<lparr>text = ''Processing...'', progress = 0, subtext = None\<rparr>)"


section \<open>The response of the back end\<close>

record feature_collection =
  features :: "geometry list option"

record metadata =
  acquisition_date :: "string option"
  water_area_km2 :: "real option"
  water_percentage :: "real option"
  processing_time_seconds :: "real option"
  aoi_area_km2 :: "real option"
  parameters_used :: "object option"
  warning :: "string option"

record detection_result =
  water_polygons :: "feature_collection option"
  metadata :: metadata
  tile_url :: "string option"
  image_bounds :: "position list option"


section \<open>components/ResultsPanel.js\<close>

text \<open>
  What the panel renders, element by element. The AOI item is guarded by
  \<open>metadata.aoi_area_km2 && ...\<close>: nothing for an absent area, the number itself for the
  area 0, the item otherwise.
\<close>

datatype aoi_area_slot = No_item | Zero_text | AOI_area_item string

record results_view =
  warning_box :: "string option"
  acquisition_date_value :: string
  water_area_value :: string
  water_coverage_value :: string
  processing_time_value :: string
  polygons_detected :: nat
  aoi_area :: aoi_area_slot
  parameters_list :: "(string \<times> jsval) list option"
  download_disabled :: bool

text \<open>\<open>water_polygons?.features?.length || 0\<close>\<close>

definition featureCount :: "detection_result \<Rightarrow> nat" where
  "featureCount results =
    (case water_polygons results of
       None \<Rightarrow> 0
     | Some collection \<Rightarrow> (case features collection of None \<Rightarrow> 0 | Some fs \<Rightarrow> length fs))"

text \<open>\<open>key.replace(/_/g, ' ')\<close>\<close>

definition replace_underscores :: "string \<Rightarrow> string" where
  "replace_underscores key = map (\<lambda>c. if c = CHR ''_'' then CHR '' '' else c) key"

definition ResultsPanel :: "('p, 'z) platform_scheme \<Rightarrow> detection_result \<Rightarrow> results_view" where
  "ResultsPanel E results =
    (let m = metadata results in
     \<lparr>warning_box = (if truthy (warning m) then warning m else None),
      acquisition_date_value = or_else (acquisition_date m) ''N/A'',
      water_area_value =
        or_else (map_option (\<lambda>a. toFixed E (Finite a) 3) (water_area_km2 m)) ''0''
          @ '' km'' @ superscript_two,
      water_coverage_value =
        or_else (map_option (\<lambda>a. toFixed E (Finite a) 2) (water_percentage m)) ''0'' @ ''%'',
      processing_time_value =
        (case processing_time_seconds m of None \<Rightarrow> [] | Some t \<Rightarrow> String E (Finite t)) @ ''s'',
      polygons_detected = featureCount results,
      aoi_area =
        (case aoi_area_km2 m of
           None \<Rightarrow> No_item
         | Some a \<Rightarrow> if a = 0 then Zero_text
                     else AOI_area_item (toFixed E (Finite a) 2 @ '' km'' @ superscript_two)),
      parameters_list =
        map_option (map (\<lambda>(key, v). (replace_underscores key, v))) (parameters_used m),
      download_disabled = (featureCount results = 0)\<rparr>)"


section \<open>services/api.js\<close>

text \<open>
  The module that \<open>App.js\<close> imports \<open>detectWater\<close> from; in the sources it follows the validator
  in the same file.

  The error that \<open>api.post\<close> rejects with: \<open>error.response\<close> (with its body \<open>data\<close>, \<open>None\<close>
  for \<open>undefined\<close>) when the server answered, \<open>error.request\<close> when the request left and
  nothing came back, and \<open>error.message\<close>.
\<close>

record error_response =
  data :: "json option"

record axios_error =
  response :: "error_response option"
  request :: bool
  message :: "string option"

datatype 'd outcome = Fulfilled 'd | Rejected axios_error

text \<open>
  What a function throws: an \<open>Error\<close> made by \<open>new Error(...)\<close>, or the \<open>TypeError\<close> of the
  engine; both carry a message.
\<close>

datatype thrown = Error string | TypeError string

fun message_of :: "thrown \<Rightarrow> string" where
  "message_of (Error m) = m"
| "message_of (TypeError m) = m"

record post =
  url :: string
  body :: object

text \<open>
  One call of \<open>detectWater\<close>: the closure variable \<open>stage\<close>, whether \<open>progressInterval\<close> holds
  a timer, whether that timer is still scheduled, the stages passed to \<open>onProgress\<close> so far
  and the requests issued.
\<close>

record api_call =
  stage :: nat
  progressInterval :: bool
  timer_active :: bool
  reported :: "string list"
  posted :: "post list"

definition stages :: "string list" where
  "stages = [''imagery'', ''filters'', ''vectorizing'']"

text \<open>The object literal \<open>{geometry, ...params}\<close>.\<close>

definition spread :: "object \<Rightarrow> object \<Rightarrow> object" where
  "spread params obj = fold (\<lambda>(key, v). AList.update key v) params obj"

text \<open>
  \<open>detectWater\<close> up to the \<open>await\<close>: with a callback it reports the first stage and starts
  the interval timer, then it posts the request. \<open>onProgress\<close> tells whether a callback was
  given; what the callback does with a stage is the caller's business.
\<close>

definition detectWater_begin :: "geometry \<Rightarrow> object \<Rightarrow> bool \<Rightarrow> api_call" where
  "detectWater_begin geometry params onProgress =
    (let c = (if onProgress then
                \<lparr>stage = 0, progressInterval = True, timer_active = True,
                 reported = [stages ! 0], posted = []\<rparr>
              else
                \<lparr>stage = 0, progressInterval = False, timer_active = False,
                 reported = [], posted = []\<rparr>)
     in c\<lparr>posted := [\<lparr>url = ''/detect-water'',
                       body = spread params [(''geometry'', JGeometry geometry)]\<rparr>]\<rparr>)"

text \<open>The callback of \<open>setInterval\<close>, run every 15 seconds while the timer is scheduled.\<close>

definition interval_callback :: "api_call \<Rightarrow> api_call" where
  "interval_callback c =
    (if timer_active c then
       (let stage' = (stage c + 1) mod length stages
        in c\<lparr>stage := stage', reported := reported c @ [stages ! stage']\<rparr>)
     else c)"

text \<open>
  The \<open>catch\<close> clause. \<open>error.response.data.detail\<close> is read without a guard: on a body
  that is \<open>undefined\<close> or \<open>null\<close> the read itself throws. Otherwise the detail, when truthy,
  is handed to \<open>new Error\<close>, which converts it to a string.
\<close>

definition catch_clause :: "('p, 'z) platform_scheme \<Rightarrow> axios_error \<Rightarrow> thrown" where
  "catch_clause E err =
    (case response err of
       Some r \<Rightarrow>
        (case data r of
           None \<Rightarrow> TypeError (cannot_read E None)
         | Some JsonNull \<Rightarrow> TypeError (cannot_read E (Some JsonNull))
         | Some v \<Rightarrow>
            (case read_property v ''detail'' of
               None \<Rightarrow> Error ''Server error occurred''
             | Some detail \<Rightarrow>
                if truthy_json (Some detail) then Error (to_string (String E) detail)
                else Error ''Server error occurred''))
     | None \<Rightarrow>
        if request err then Error ''No response from server. Please check your connection.''
        else Error (or_else (message err) ''Failed to send request''))"

text \<open>
  \<open>detectWater\<close> after the \<open>await\<close>: a response clears the timer and is returned; a rejection
  goes to the \<open>catch\<close> clause, which throws (\<open>Inl\<close>) and does not touch the timer.
\<close>

definition detectWater_settle ::
  "('p, 'z) platform_scheme \<Rightarrow> 'd outcome \<Rightarrow> api_call \<Rightarrow> (thrown + 'd) \<times> api_call" where
  "detectWater_settle E out c =
    (case out of
       Fulfilled d \<Rightarrow> (Inr d, if progressInterval c then c\<lparr>timer_active := False\<rparr> else c)
     | Rejected err \<Rightarrow> (Inl (catch_clause E err), c))"

text \<open>The whole call: \<open>n\<close> periods of 15 seconds pass before the request settles with \<open>out\<close>.\<close>

definition detectWater ::
  "('p, 'z) platform_scheme \<Rightarrow> geometry \<Rightarrow> object \<Rightarrow> bool \<Rightarrow> nat \<Rightarrow> 'd outcome
   \<Rightarrow> (thrown + 'd) \<times> api_call" where
  "detectWater E geometry params onProgress n out =
    detectWater_settle E out
      ((interval_callback ^^ n) (detectWater_begin geometry params onProgress))"


section \<open>App.js\<close>

text \<open>
  The component \<open>App\<close> with its state and handlers (the fifth of the unnamed source files).
\<close>

text \<open>An entry of the list of test locations, with the fields the components read.\<close>

record test_aoi =
  aoi_id :: int
  name :: string
  description :: string
  center :: position
  zoom :: real
  coordinates :: ring

record overlay =
  url :: string
  bounds :: "position list option"

text \<open>The loop over \<open>Object.keys(advancedParams)\<close> that fills \<open>params\<close>.\<close>

definition prepare_params :: "object \<Rightarrow> object" where
  "prepare_params advanced =
    fold (\<lambda>key params.
            if property advanced key \<noteq> JNull then AList.update key (property advanced key) params
            else params)
         (map fst advanced) []"

record app_state =
  selectedAoi :: "test_aoi option"
  drawnAoi :: "geometry option"
  loading :: bool
  processingStage :: "string option"
  results :: "detection_result option"
  error :: "string option"
  showAdvanced :: bool
  basemap :: string
  sentinelOverlay :: "overlay option"
  overlayOpacity :: real
  showResults :: bool
  advancedParams :: object

definition initial_state :: app_state where
  "initial_state =
    \<lparr>selectedAoi = None, drawnAoi = None, loading = False, processingStage = None,
     results = None, error = None, showAdvanced = False, basemap = ''osm'',
     sentinelOverlay = None, overlayOpacity = 0.7, showResults = True,
     advancedParams =
       [(''vv_threshold'', JNull), (''vh_threshold'', JNull), (''vv_vh_diff'', JNull),
        (''slope_max'', JNull), (''min_area_pixels'', JNull), (''texture_window'', JNull)]\<rparr>"

definition handleAoiSelect :: "test_aoi option \<Rightarrow> app_state \<Rightarrow> app_state" where
  "handleAoiSelect aoi s = s\<lparr>selectedAoi := aoi, drawnAoi := None, results := None, error := None\<rparr>"

definition handleAoiDraw :: "geometry option \<Rightarrow> app_state \<Rightarrow> app_state" where
  "handleAoiDraw g s = s\<lparr>drawnAoi := g, selectedAoi := None, results := None, error := None\<rparr>"

text \<open>
  What \<open>App\<close> renders of a state: the error banner under \<open>error && ...\<close> and the results panel
  under \<open>results && ...\<close>.
\<close>

definition error_banner :: "app_state \<Rightarrow> string option" where
  "error_banner s = (if truthy (error s) then error s else None)"

definition results_panel :: "('p, 'z) platform_scheme \<Rightarrow> app_state \<Rightarrow> results_view option" where
  "results_panel E s = map_option (ResultsPanel E) (results s)"

text \<open>\<open>drawnAoi || (selectedAoi ? {type: 'Polygon', coordinates: [selectedAoi.coordinates]} : null)\<close>\<close>

definition currentAoi :: "app_state \<Rightarrow> geometry option" where
  "currentAoi s =
    (case drawnAoi s of
       Some g \<Rightarrow> Some g
     | None \<Rightarrow>
        (case selectedAoi s of
           Some a \<Rightarrow> Some \<lparr>type = ''Polygon'', geometry.coordinates = [test_aoi.coordinates a]\<rparr>
         | None \<Rightarrow> None))"

text \<open>What \<open>handleDetectWater\<close> does once \<open>detectWater\<close> has returned or thrown.\<close>

definition after_detection :: "(thrown + detection_result) \<Rightarrow> app_state \<Rightarrow> app_state" where
  "after_detection res s =
    (case res of
       Inr d \<Rightarrow>
        (let s1 = s\<lparr>results := Some d\<rparr>;
             s2 = (case tile_url d of
                     None \<Rightarrow> s1
                   | Some u \<Rightarrow>
                      if u \<noteq> [] then
                        s1\<lparr>sentinelOverlay := Some \<lparr>overlay.url = u, bounds = image_bounds d\<rparr>\<rparr>
                      else s1)
         in s2\<lparr>processingStage := None\<rparr>)
     | Inl err \<Rightarrow>
        s\<lparr>error := Some (or_else (Some (message_of err)) ''An error occurred during detection''),
          processingStage := None\<rparr>)"

text \<open>
  \<open>handleDetectWater\<close> on the state \<open>s\<close> of the render it was created in. The request, when
  one is sent, settles with \<open>out\<close> after \<open>n\<close> periods of the progress timer; the second
  component is the call of \<open>detectWater\<close>, \<open>None\<close> when the handler returned before it.
\<close>

definition handleDetectWater ::
  "('p, 'z) platform_scheme \<Rightarrow> nat \<Rightarrow> detection_result outcome \<Rightarrow> app_state
   \<Rightarrow> app_state \<times> api_call option" where
  "handleDetectWater E n out s =
    (case currentAoi s of
       None \<Rightarrow> (s\<lparr>error := Some ''Please draw an AOI or select a test location''\<rparr>, None)
     | Some aoi \<Rightarrow>
        (let validation = validateAOI E (Some aoi) in
         if \<not> isValid validation then (s\<lparr>error := validation.error validation\<rparr>, None)
         else
           (let s1 = s\<lparr>loading := True, error := None, results := None,
                      processingStage := Some ''imagery''\<rparr>;
                params = prepare_params (advancedParams s);
                (res, call) = detectWater E aoi params True n out;
                s2 = fold (\<lambda>stage st. st\<lparr>processingStage := Some stage\<rparr>) (reported call) s1;
                s3 = after_detection res s2
            in (s3\<lparr>loading := False\<rparr>, Some call))))"


text \<open>
  The handler is asynchronous: it runs up to the \<open>await\<close>, and goes on when the request has
  settled, on whatever the state is by then (each setter replaces one variable of the
  state). \<open>handleDetectWater_start\<close> is the state it leaves at the \<open>await\<close>, \<open>None\<close> when it
  returned before; \<open>handleDetectWater_finish\<close> is what it does afterwards, with \<open>finally\<close>.
\<close>

definition handleDetectWater_start :: "('p, 'z) platform_scheme \<Rightarrow> app_state \<Rightarrow> app_state option" where
  "handleDetectWater_start E s =
    (case currentAoi s of
       None \<Rightarrow> None
     | Some aoi \<Rightarrow>
        if \<not> isValid (validateAOI E (Some aoi)) then None
        else Some (s\<lparr>loading := True, error := None, results := None,
                     processingStage := Some ''imagery''\<rparr>))"

definition handleDetectWater_finish :: "(thrown + detection_result) \<Rightarrow> app_state \<Rightarrow> app_state" where
  "handleDetectWater_finish res s = (after_detection res s)\<lparr>loading := False\<rparr>"

section \<open>The water-extraction pipeline\<close>

text \<open>
  The back end that runs the pipeline is not part of the sources at hand. The stages below
  follow the specification of the pipeline, section by section.
\<close>

text \<open>
  Modelled from the spec: the provenance tag of the Threshold Selector (section 4.1), which
  says whether the threshold was computed or supplied.
\<close>

datatype provenance = automatic | manual

text \<open>
  Modelled from the spec: the computations a run performs that the testable properties speak
  about; the only one is the histogram computation of the automatic branch (sections 4.1 and
  8).
\<close>

datatype stage_event = Histogram_computed

text \<open>
  Modelled from the spec: the typed failure of the failure contract (sections 6 and 7) for
  structurally invalid input.
\<close>

datatype failure = InputShapeError

text \<open>
  Modelled from the spec: the optional overrides of section 3, each field independently
  nullable.
\<close>

record DetectionParameters =
  primary_threshold :: "real option"
  secondary_threshold :: "real option"
  difference_ceiling :: "real option"
  slope_ceiling :: "real option"
  min_feature_size :: "nat option"
  smoothing_window :: "nat option"
  cutoff_date :: "string option"

text \<open>
  Modelled from the spec: the fully defaulted parameter set of sections 3 and 4.5
  (\<open>parameters_used\<close>), with the primary threshold that was chosen.
\<close>

record effective_parameters =
  primary_used :: real
  secondary_used :: real
  difference_used :: real
  slope_used :: real
  min_size_used :: nat

text \<open>
  Modelled from the spec: a raster layer of section 3, a grid of values in which a missing or
  invalid pixel is \<open>None\<close>.
\<close>

type_synonym raster = "real option list list"

text \<open>
  Modelled from the spec: the co-registered layers of section 3.
\<close>

record RasterLayerSet =
  primary :: raster
  secondary :: raster
  slope :: raster

text \<open>
  Modelled from the spec: the water mask of section 3: the binary grid, the threshold actually
  used and the flag of the branch that produced it.
\<close>

record WaterMask =
  grid :: "bool list list"
  threshold :: real
  branch :: provenance

text \<open>
  Modelled from the spec: the number of histogram levels, 256 by default (section 4.1).
\<close>

definition bins :: nat where
  "bins = 256"

text \<open>
  Modelled from the spec: the values of the valid (non-missing) pixels, over which the
  histogram is built (section 4.1).
\<close>

definition valid_values :: "raster \<Rightarrow> real list" where
  "valid_values r = concat (map (List.map_filter (\<lambda>v. v)) r)"

text \<open>
  Modelled from the spec: the binning of section 4.1, fixed-width bins spanning the observed
  value range.
\<close>

definition bin_of :: "real \<Rightarrow> real \<Rightarrow> real \<Rightarrow> nat" where
  "bin_of lo hi v =
    (if hi \<le> lo then 0 else min (bins - 1) (nat \<lfloor>(v - lo) * real bins / (hi - lo)\<rfloor>))"

text \<open>
  Modelled from the spec: the histogram of section 4.1, integer counts per bin.
\<close>

definition histogram :: "real list \<Rightarrow> nat list" where
  "histogram vs =
    (case vs of
       [] \<Rightarrow> replicate bins 0
     | v # rest \<Rightarrow>
        (let lo = fold min rest v; hi = fold max rest v
         in map (\<lambda>b. length (filter (\<lambda>x. bin_of lo hi x = b) vs)) [0..<bins]))"

text \<open>
  Modelled from the spec: the weight of a class of the split histogram, its number of pixels
  (section 4.1).
\<close>

definition class_weight :: "nat list \<Rightarrow> real" where
  "class_weight cs = real (sum_list cs)"

text \<open>
  Modelled from the spec: the mean bin of a class whose first bin is \<open>first\<close>
  (section 4.1).
\<close>

definition class_mean :: "nat \<Rightarrow> nat list \<Rightarrow> real" where
  "class_mean first cs =
     (\<Sum>(i, c) \<leftarrow> zip [first..<first + length cs] cs. real i * real c) / class_weight cs"

text \<open>
  Modelled from the spec: the between-class variance of the two classes obtained by splitting
  the histogram at bin \<open>k\<close> (section 4.1), up to the constant factor of the
  squared total weight.
\<close>

definition between_class_variance :: "nat list \<Rightarrow> nat \<Rightarrow> real" where
  "between_class_variance h k =
    (let low = take k h; high = drop k h
     in if class_weight low = 0 \<or> class_weight high = 0 then 0
        else class_weight low * class_weight high * (class_mean 0 low - class_mean k high)\<^sup>2)"

text \<open>
  Modelled from the spec: the split that maximizes the between-class variance (section 4.1),
  the first one among equals.
\<close>

definition otsu_split :: "nat list \<Rightarrow> nat" where
  "otsu_split h =
    fold (\<lambda>k best. if between_class_variance h best < between_class_variance h k then k else best)
      [2..<bins] 1"

text \<open>
  Modelled from the spec: the automatic branch of the Threshold Selector (section 4.1), the
  lower edge of the chosen bin in the units of the raster.
\<close>

definition automatic_threshold :: "real list \<Rightarrow> real" where
  "automatic_threshold vs =
    (case vs of
       [] \<Rightarrow> 0
     | v # rest \<Rightarrow>
        (let lo = fold min rest v; hi = fold max rest v
         in lo + real (otsu_split (histogram vs)) * (hi - lo) / real bins))"

text \<open>
  Modelled from the spec: the edge case of section 4.1, fewer than two populated bins.
\<close>

definition degenerate :: "nat list \<Rightarrow> bool" where
  "degenerate h = (length (filter (\<lambda>c. 0 < c) h) < 2)"

text \<open>
  Modelled from the spec: the Threshold Selector (section 4.1): an override is used verbatim
  with provenance \<open>manual\<close> and no histogram computation; otherwise the automatic
  branch runs, which is recorded as an event.
\<close>

definition select_threshold ::
  "real list \<Rightarrow> real option \<Rightarrow> (real \<times> provenance) \<times> stage_event list" where
  "select_threshold vs override =
    (case override of
       Some t \<Rightarrow> ((t, manual), [])
     | None \<Rightarrow> ((automatic_threshold vs, automatic), [Histogram_computed]))"

text \<open>
  Modelled from the spec: the per-pixel rule of the Mask Builder (section 4.2); a pixel
  missing in any layer is never a candidate.
\<close>

definition water_candidate ::
  "effective_parameters \<Rightarrow> real option \<Rightarrow> real option \<Rightarrow> real option \<Rightarrow> bool" where
  "water_candidate q p s sl =
    (case (p, s, sl) of
       (Some vp, Some vs, Some vsl) \<Rightarrow>
         vp \<le> primary_used q \<and> vs \<le> secondary_used q \<and> vp - vs \<le> difference_used q
         \<and> vsl \<le> slope_used q
     | _ \<Rightarrow> False)"

text \<open>
  Modelled from the spec: the Mask Builder (section 4.2), the rule applied to every pixel.
\<close>

definition build_mask :: "RasterLayerSet \<Rightarrow> effective_parameters \<Rightarrow> bool list list" where
  "build_mask layers q =
    map (\<lambda>(ps, ss, sls). map (\<lambda>(p, s, sl). water_candidate q p s sl) (zip ps (zip ss sls)))
      (zip (primary layers) (zip (secondary layers) (slope layers)))"

text \<open>
  Modelled from the spec: the structural conditions of the failure contract (section 6): the
  raster is not empty and the layers have the same shape. The geotransform belongs to the
  Vectorizer, which is a parameter here.
\<close>

definition well_formed :: "RasterLayerSet \<Rightarrow> bool" where
  "well_formed layers =
    (valid_values (primary layers) \<noteq> []
     \<and> map length (secondary layers) = map length (primary layers)
     \<and> map length (slope layers) = map length (primary layers))"

text \<open>
  Modelled from the spec: the defaulting of the parameters at pipeline entry (sections 4.5 and
  9); the default values are a parameter, the specification does not fix them.
\<close>

definition resolve :: "effective_parameters \<Rightarrow> DetectionParameters \<Rightarrow> real \<Rightarrow> effective_parameters" where
  "resolve defaults params t =
    \<lparr>primary_used = t,
     secondary_used = (case secondary_threshold params of Some v \<Rightarrow> v | None \<Rightarrow> secondary_used defaults),
     difference_used = (case difference_ceiling params of Some v \<Rightarrow> v | None \<Rightarrow> difference_used defaults),
     slope_used = (case slope_ceiling params of Some v \<Rightarrow> v | None \<Rightarrow> slope_used defaults),
     min_size_used = (case min_feature_size params of Some v \<Rightarrow> v | None \<Rightarrow> min_size_used defaults)\<rparr>"

text \<open>
  Modelled from the spec: the result of the Orchestrator (sections 3 and 4.5): what the
  Vectorizer returns, the water mask with threshold and branch flag, the effective parameters,
  the optional warning, and the events of the run.
\<close>

record 'v DetectionResult =
  vectors :: 'v
  water_mask :: WaterMask
  effective :: effective_parameters
  result_warning :: "string option"
  trace :: "stage_event list"

text \<open>
  Modelled from the spec: the Pipeline Orchestrator (section 4.5), which sequences the stages
  4.1 to 4.4. The Mask Refiner (4.3) and the Vectorizer (4.4) are parameters: they consume the
  mask only.
\<close>

definition runPipeline ::
  "(nat \<Rightarrow> bool list list \<Rightarrow> bool list list) \<Rightarrow> (bool list list \<Rightarrow> 'v) \<Rightarrow> effective_parameters
   \<Rightarrow> RasterLayerSet \<Rightarrow> DetectionParameters \<Rightarrow> failure + 'v DetectionResult" where
  "runPipeline refine vectorize defaults layers params =
    (if \<not> well_formed layers then Inl InputShapeError
     else
       (let vs = valid_values (primary layers);
            ((t, tag), events) = select_threshold vs (primary_threshold params);
            q = resolve defaults params t;
            refined = refine (min_size_used q) (build_mask layers q)
        in Inr \<lparr>vectors = vectorize refined,
                 water_mask = \<lparr>grid = refined, threshold = t, branch = tag\<rparr>,
                 effective = q,
                 result_warning =
                   (if tag = automatic \<and> degenerate (histogram vs)
                    then Some ''automatic threshold unreliable: degenerate histogram'' else None),
                 trace = events\<rparr>))"


section \<open>Example inputs\<close>

text \<open>
  A platform to run the code on. \<open>turf.polygon\<close> accepts rings of at least four positions
  whose last position equals the first. The area is \<open>NaN\<close> when a position has less than
  two numbers (the missing coordinate is \<open>undefined\<close>), and the planar area otherwise
  (coordinates read as metres). \<open>toFixed\<close> rounds half up. The messages of the \<open>TypeError\<close>
  are the ones of V8.
\<close>

fun digits :: "nat \<Rightarrow> string" where
  "digits n = (if n < 10 then [char_of (48 + n)] else digits (n div 10) @ [char_of (48 + n mod 10)])"

definition fixed_digits :: "real \<Rightarrow> nat \<Rightarrow> string" where
  "fixed_digits x d =
    (let n = nat \<lfloor>\<bar>x\<bar> * 10 ^ d + 1 / 2\<rfloor>;
         ds = digits n;
         padded = replicate (Suc d - length ds) CHR ''0'' @ ds;
         whole = take (length padded - d) padded;
         fraction = drop (length padded - d) padded
     in (if x < 0 then ''-'' else []) @ whole @ (if d = 0 then [] else ''.'' @ fraction))"

fun example_toFixed :: "number \<Rightarrow> nat \<Rightarrow> string" where
  "example_toFixed NaN d = ''NaN''"
| "example_toFixed Infinity d = ''Infinity''"
| "example_toFixed NegInfinity d = ''-Infinity''"
| "example_toFixed (Finite x) d = fixed_digits x d"

fun example_String :: "number \<Rightarrow> string" where
  "example_String (Finite x) = (if x = of_int \<lfloor>x\<rfloor> then fixed_digits x 0 else fixed_digits x 2)"
| "example_String a = example_toFixed a 0"

fun shoelace :: "ring \<Rightarrow> real" where
  "shoelace ((x1 # y1 # r1) # (x2 # y2 # r2) # ps) =
     (x1 * y2 - x2 * y1) + shoelace ((x2 # y2 # r2) # ps)"
| "shoelace ps = 0"

definition example_cannot_read :: "json option \<Rightarrow> string" where
  "example_cannot_read v =
    ''Cannot read properties of '' @ (if v = None then ''undefined'' else ''null'')
      @ '' (reading '' @ [CHR 0x27] @ ''detail'' @ [CHR 0x27] @ '')''"

definition example_platform :: "(ring list) platform" where
  "example_platform =
    \<lparr>turf_polygon = (\<lambda>rings. if list_all (\<lambda>r. 4 \<le> length r \<and> last r = hd r) rings
                              then Some rings else None),
     turf_area = (\<lambda>rings. if list_all (list_all (\<lambda>p. 2 \<le> length p)) rings
                           then Some (Finite (sum_list (map (\<lambda>r. \<bar>shoelace r\<bar> / 2) rings)))
                           else Some NaN),
     toFixed = example_toFixed,
     String = example_String,
     cannot_read = example_cannot_read\<rparr>"


definition square :: "real \<Rightarrow> geometry" where
  "square side =
    \<lparr>type = ''Polygon'',
     geometry.coordinates = [[[0, 0], [side, 0], [side, side], [0, side], [0, 0]]]\<rparr>"



definition example_result :: detection_result where
  "example_result =
    \<lparr>water_polygons = Some \<lparr>features = Some []\<rparr>,
     metadata = \<lparr>acquisition_date = Some ''2024-05-01'', water_area_km2 = Some 0,
                 water_percentage = Some 0, processing_time_seconds = Some 12,
                 aoi_area_km2 = Some 1, parameters_used = Some [(''slope_max'', JNum 5)],
                 warning = None\<rparr>,
     tile_url = None, image_bounds = None\<rparr>"

definition example_state :: "real \<Rightarrow> app_state" where
  "example_state side =
    initial_state\<lparr>drawnAoi := Some (square side),
                  advancedParams :=
                    AList.update ''vv_threshold'' (JNum (- 15)) (advancedParams initial_state)\<rparr>"


definition example_aoi :: test_aoi where
  "example_aoi =
    \<lparr>aoi_id = 1, name = ''Lake'', description = ''A lake and its shore'',
     center = [500, 500], zoom = 12,
     coordinates = [[0, 0], [1000, 0], [1000, 1000], [0, 1000], [0, 0]]\<rparr>"


text \<open>The state in which \<open>handleDetectWater\<close> waits for the answer to its request.\<close>

definition pending_state :: app_state where
  "pending_state =
    (example_state 1000)\<lparr>loading := True, error := None, results := None,
                          processingStage := Some ''imagery''\<rparr>"

definition finished_state :: app_state where
  "finished_state =
    (example_state 1000)\<lparr>results := Some example_result, error := Some ''Server error occurred''\<rparr>"

definition server_error :: axios_error where
  "server_error =
    \<lparr>response =
       Some \<lparr>data = Some (JsonObject
                [(''detail'', JsonStr ''No Sentinel-1 imagery found for this area'')])\<rparr>,
     request = True, message = Some ''Request failed with status code 404''\<rparr>"





definition example_layers :: RasterLayerSet where
  "example_layers =
    \<lparr>primary = [[Some (- 20), Some (- 8)], [Some (- 18), None]],
     secondary = [[Some (- 27), Some (- 14)], [Some (- 25), Some (- 30)]],
     slope = [[Some 1, Some 2], [Some 12, Some 0]]\<rparr>"



definition example_defaults :: effective_parameters where
  "example_defaults =
    \<lparr>primary_used = 0, secondary_used = - 20, difference_used = 10, slope_used = 5,
     min_size_used = 100\<rparr>"

definition example_override :: DetectionParameters where
  "example_override =
    \<lparr>primary_threshold = Some (- 15), secondary_threshold = None, difference_ceiling = None,
     slope_ceiling = None, min_feature_size = Some 1, smoothing_window = None, cutoff_date = None\<rparr>"

definition count_water :: "bool list list \<Rightarrow> nat" where
  "count_water m = length (filter (\<lambda>b. b) (concat m))"




section \<open>Properties of the progress indicator\<close>

lemma getStageInfo_coldstart_bounds:
  "0 \<le> progress (getStageInfo_coldstart stg) \<and> progress (getStageInfo_coldstart stg) \<le> 100"
  by (simp add: getStageInfo_coldstart_def)

lemma getStageInfo_coldstart_default:
  "stg \<notin> {Some ''coldstart'', Some ''imagery'', Some ''filters'', Some ''vectorizing''} \<Longrightarrow>
   getStageInfo_coldstart stg = \<lparr>text = ''Processing...'', progress = 0, subtext = None\<rparr>"
  by (simp add: getStageInfo_coldstart_def)

text \<open>
  C10. \<open>getStageInfo\<close> is total: for every stage, \<open>null\<close> and unknown strings included, it
  returns a record whose progress lies in \<open>[0, 100]\<close>, and every stage outside
  \<open>imagery\<close>, \<open>filters\<close>, \<open>vectorizing\<close> gives the text \<open>Processing...\<close> with progress 0.
\<close>

theorem getStageInfo_total:
  "0 \<le> progress (getStageInfo stg) \<and> progress (getStageInfo stg) \<le> 100
   \<and> (stg \<notin> {Some ''imagery'', Some ''filters'', Some ''vectorizing''} \<longrightarrow>
        getStageInfo stg = \<lparr>text = ''Processing...'', progress = 0\<rparr>)
   \<and> getStageInfo None = \<lparr>text = ''Processing...'', progress = 0\<rparr>"
  by (simp add: getStageInfo_def)

theorem getStageInfo_total_witness:
  "Some ''uploading'' \<notin> {Some ''imagery'', Some ''filters'', Some ''vectorizing''}
   \<and> getStageInfo (Some ''uploading'') = \<lparr>text = ''Processing...'', progress = 0\<rparr>
   \<and> progress (getStageInfo (Some ''filters'')) = 66"
  using getStageInfo_total [of "Some ''uploading''"] getStageInfo_total [of "Some ''filters''"]
  by (simp add: getStageInfo_def)


section \<open>Properties of the validator\<close>

lemma validateAOI_computed:
  assumes "turf_polygon E (geometry.coordinates g) = Some p" and "turf_area E p = Some a"
  shows "validateAOI E (Some g) =
    (if less_number (Finite 2500) (divide_number a 1000000) then
       \<lparr>isValid = False,
        error = Some (''AOI too large ('' @ toFixed E (divide_number a 1000000) 2 @ '' km''
                  @ superscript_two @ ''). Maximum allowed: 2500 km'' @ superscript_two
                  @ '' (50'' @ multiplication_sign @ ''50 km)''),
        area = divide_number a 1000000\<rparr>
     else if less_number (divide_number a 1000000) (Finite 0.01) then
       \<lparr>isValid = False,
        error = Some (''AOI too small ('' @ toFixed E (divide_number a 1000000) 4 @ '' km''
                  @ superscript_two @ ''). Minimum allowed: 0.01 km'' @ superscript_two),
        area = divide_number a 1000000\<rparr>
     else \<lparr>isValid = True, error = None, area = divide_number a 1000000\<rparr>)"
  using assms
  by (simp add: validateAOI_def validateAOI_try_def MAX_AREA_KM2_def MIN_AREA_KM2_def Let_def)





lemma square_polygon:
  "turf_polygon example_platform (geometry.coordinates (square side)) =
     Some (geometry.coordinates (square side))"
  by (simp add: example_platform_def square_def)

lemma square_area:
  "turf_area example_platform (geometry.coordinates (square side)) = Some (Finite (side * side))"
  by (simp add: example_platform_def square_def)




section \<open>Properties of the detection request\<close>



lemma posted_interval_callback: "posted (interval_callback c) = posted c"
  by (simp add: interval_callback_def Let_def)

lemma posted_interval_callbacks: "posted ((interval_callback ^^ n) c) = posted c"
  by (induction n) (simp_all add: posted_interval_callback)

lemma posted_settle: "posted (snd (detectWater_settle E out c)) = posted c"
  by (simp add: detectWater_settle_def split: outcome.splits)

lemma posted_detectWater:
  "posted (snd (detectWater E g params onProgress n out)) =
     [\<lparr>post.url = ''/detect-water'', body = spread params [(''geometry'', JGeometry g)]\<rparr>]"
  by (simp add: detectWater_def posted_settle posted_interval_callbacks detectWater_begin_def Let_def)

lemma handleDetectWater_no_aoi:
  "currentAoi s = None \<Longrightarrow>
   handleDetectWater E n out s = (s\<lparr>error := Some ''Please draw an AOI or select a test location''\<rparr>, None)"
  by (simp add: handleDetectWater_def)

lemma handleDetectWater_invalid:
  "currentAoi s = Some aoi \<Longrightarrow> \<not> isValid (validateAOI E (Some aoi)) \<Longrightarrow>
   handleDetectWater E n out s = (s\<lparr>error := validation.error (validateAOI E (Some aoi))\<rparr>, None)"
  by (simp add: handleDetectWater_def)

lemma handleDetectWater_valid:
  "currentAoi s = Some aoi \<Longrightarrow> isValid (validateAOI E (Some aoi)) \<Longrightarrow>
   snd (handleDetectWater E n out s) =
     Some (snd (detectWater E aoi (prepare_params (advancedParams s)) True n out))"
  by (simp add: handleDetectWater_def Let_def split: prod.splits)


lemma map_of_fold_params:
  "map_of (fold (\<lambda>key params.
            if property advanced key \<noteq> JNull then AList.update key (property advanced key) params
            else params) ks acc) k =
   (if k \<in> set ks \<and> property advanced k \<noteq> JNull then Some (property advanced k) else map_of acc k)"
  by (induction ks arbitrary: acc) (auto simp add: update_conv')

lemma map_of_prepare_params:
  "map_of (prepare_params advanced) k =
   (case map_of advanced k of None \<Rightarrow> None | Some v \<Rightarrow> if v = JNull then None else Some v)"
proof (cases "map_of advanced k")
  case None
  then have "k \<notin> set (map fst advanced)"
    by (simp add: map_of_eq_None_iff)
  then have "map_of (prepare_params advanced) k = None"
    unfolding prepare_params_def map_of_fold_params by simp
  with None show ?thesis
    by simp
next
  case (Some v)
  then have "k \<in> set (map fst advanced)"
    by (metis map_of_eq_None_iff option.distinct(1) set_map)
  then have "map_of (prepare_params advanced) k =
      (if property advanced k \<noteq> JNull then Some (property advanced k) else None)"
    unfolding prepare_params_def map_of_fold_params by simp
  with Some show ?thesis
    by (simp add: property_def)
qed

lemma distinct_fold_params:
  "distinct (map fst acc) \<Longrightarrow>
   distinct (map fst (fold (\<lambda>key params.
            if property advanced key \<noteq> JNull then AList.update key (property advanced key) params
            else params) ks acc))"
  by (induction ks arbitrary: acc) (auto simp add: distinct_update)

lemma distinct_prepare_params: "distinct (map fst (prepare_params advanced))"
  by (simp add: prepare_params_def distinct_fold_params)

lemma map_of_spread:
  "distinct (map fst params) \<Longrightarrow> map_of (spread params obj) = map_of obj ++ map_of params"
proof (induction params arbitrary: obj)
  case Nil
  then show ?case by (simp add: spread_def)
next
  case (Cons kv params)
  obtain k v where kv: "kv = (k, v)" by (cases kv)
  from Cons.prems kv have d: "distinct (map fst params)" and nk: "k \<notin> fst ` set params"
    by auto
  have "spread (kv # params) obj = spread params (AList.update k v obj)"
    by (simp add: spread_def kv)
  then have "map_of (spread (kv # params) obj) = map_of (AList.update k v obj) ++ map_of params"
    using Cons.IH [OF d] by simp
  then have "map_of (spread (kv # params) obj) = (map_of obj)(k \<mapsto> v) ++ map_of params"
    unfolding update_conv' .
  also have "\<dots> = map_of obj ++ map_of (kv # params)"
  proof
    fix x
    from nk have "map_of params k = None"
      by (simp add: map_of_eq_None_iff)
    then show "((map_of obj)(k \<mapsto> v) ++ map_of params) x = (map_of obj ++ map_of (kv # params)) x"
      by (auto simp add: map_add_def kv split: option.splits)
  qed
  finally show ?case .
qed

lemma map_of_request_body:
  "map_of (spread (prepare_params advanced) [(''geometry'', JGeometry g)]) key =
   (case map_of advanced key of
      None \<Rightarrow> if key = ''geometry'' then Some (JGeometry g) else None
    | Some v \<Rightarrow> if v \<noteq> JNull then Some v
               else if key = ''geometry'' then Some (JGeometry g) else None)"
  by (simp add: map_of_spread distinct_prepare_params map_add_def map_of_prepare_params
           split: option.splits)

lemma example_state_aoi: "currentAoi (example_state side) = Some (square side)"
  by (simp add: currentAoi_def example_state_def initial_state_def)

lemma example_valid: "isValid (validateAOI example_platform (Some (square 1000)))"
  unfolding validateAOI_computed [OF square_polygon square_area] by simp




lemma example_call:
  "snd (handleDetectWater example_platform 2 (Fulfilled example_result) (example_state 1000)) =
     Some (snd (detectWater example_platform (square 1000)
                  (prepare_params (advancedParams (example_state 1000)))
                  True 2 (Fulfilled example_result)))"
  using handleDetectWater_valid [OF example_state_aoi example_valid] by simp




text \<open>
  C4. In the request that \<open>handleDetectWater\<close> sends, a key other than \<open>geometry\<close> is present
  exactly when the advanced parameters hold a value for it that is not \<open>null\<close>, and it
  carries that value; a \<open>null\<close> field is left out.
\<close>

theorem request_params_non_null:
  "snd (handleDetectWater E n out s) = Some call \<Longrightarrow>
   \<exists>rq. posted call = [rq] \<and> post.url rq = ''/detect-water''
      \<and> (\<forall>key. key \<noteq> ''geometry'' \<longrightarrow>
            map_of (body rq) key =
              (case map_of (advancedParams s) key of
                 None \<Rightarrow> None
               | Some v \<Rightarrow> if v = JNull then None else Some v))"
proof -
  assume a: "snd (handleDetectWater E n out s) = Some call"
  then obtain aoi where aoi: "currentAoi s = Some aoi"
    by (cases "currentAoi s") (simp_all add: handleDetectWater_no_aoi)
  with a have v: "isValid (validateAOI E (Some aoi))"
    by (cases "isValid (validateAOI E (Some aoi))") (simp_all add: handleDetectWater_invalid)
  from a have "call = snd (detectWater E aoi (prepare_params (advancedParams s)) True n out)"
    using handleDetectWater_valid [OF aoi v, of n out] by simp
  then have "posted call = [\<lparr>post.url = ''/detect-water'',
      body = spread (prepare_params (advancedParams s)) [(''geometry'', JGeometry aoi)]\<rparr>]"
    by (simp only: posted_detectWater)
  then show ?thesis
    by (simp add: map_of_request_body split: option.splits)
qed

theorem request_params_non_null_witness:
  "\<exists>rq. posted (snd (detectWater example_platform (square 1000)
                  (prepare_params (advancedParams (example_state 1000)))
                  True 2 (Fulfilled example_result))) = [rq]
      \<and> map_of (body rq) ''vv_threshold'' = Some (JNum (- 15))
      \<and> map_of (body rq) ''vh_threshold'' = None"
proof -
  from request_params_non_null [OF example_call]
  obtain rq where rq: "posted (snd (detectWater example_platform (square 1000)
        (prepare_params (advancedParams (example_state 1000))) True 2 (Fulfilled example_result))) = [rq]"
    and k: "\<forall>key. key \<noteq> ''geometry'' \<longrightarrow> map_of (body rq) key =
              (case map_of (advancedParams (example_state 1000)) key of
                 None \<Rightarrow> None | Some v \<Rightarrow> if v = JNull then None else Some v)"
    by blast
  have "map_of (body rq) ''vv_threshold'' = Some (JNum (- 15))"
    using k by (simp add: example_state_def initial_state_def)
  moreover have "map_of (body rq) ''vh_threshold'' = None"
    using k by (simp add: example_state_def initial_state_def)
  ultimately show ?thesis using rq by blast
qed


section \<open>Properties of \<open>detectWater\<close>\<close>










section \<open>Properties of the progress timer\<close>

lemma reported_pending:
  "(interval_callback ^^ n) (detectWater_begin g params True) =
     (detectWater_begin g params True)
       \<lparr>stage := n mod 3, reported := map (\<lambda>k. stages ! (k mod 3)) [0..<Suc n]\<rparr>"
proof (induction n)
  case 0
  show ?case by (simp add: detectWater_begin_def)
next
  case (Suc n)
  have "(n mod 3 + 1) mod 3 = Suc n mod 3"
    by (simp add: mod_Suc_eq)
  with Suc show ?case
    by (simp add: interval_callback_def detectWater_begin_def stages_def Let_def)
qed

lemma no_callback_no_report:
  "(interval_callback ^^ n) (detectWater_begin g params False) = detectWater_begin g params False"
  by (induction n) (simp_all add: interval_callback_def detectWater_begin_def)

lemma progress_stage_sequence:
  "reported ((interval_callback ^^ n) (detectWater_begin g params True)) =
     map (\<lambda>k. [''imagery'', ''filters'', ''vectorizing''] ! (k mod 3)) [0..<Suc n]"
  by (simp add: reported_pending stages_def)

lemma pending_timer_on:
  "timer_active ((interval_callback ^^ n) (detectWater_begin g params True))"
  "progressInterval ((interval_callback ^^ n) (detectWater_begin g params True))"
  unfolding reported_pending by (simp_all add: detectWater_begin_def)

lemma pending_timer_off:
  "\<not> timer_active ((interval_callback ^^ n) (detectWater_begin g params False))"
  "\<not> progressInterval ((interval_callback ^^ n) (detectWater_begin g params False))"
  unfolding no_callback_no_report by (simp_all add: detectWater_begin_def)

lemma pending_timer:
  "timer_active ((interval_callback ^^ n) (detectWater_begin g params onProgress)) = onProgress"
  "progressInterval ((interval_callback ^^ n) (detectWater_begin g params onProgress)) = onProgress"
  by (cases onProgress; simp add: pending_timer_on pending_timer_off)+

lemma timer_cleared_on_response:
  "\<not> timer_active (snd (detectWater E g params onProgress n (Fulfilled d)))
   \<and> interval_callback (snd (detectWater E g params onProgress n (Fulfilled d))) =
       snd (detectWater E g params onProgress n (Fulfilled d))"
  by (simp add: detectWater_def detectWater_settle_def pending_timer interval_callback_def)

lemma timer_not_cleared_on_rejection:
  "timer_active (snd (detectWater E g params True n (Rejected err)))"
  by (simp add: detectWater_def detectWater_settle_def pending_timer)

text \<open>
  C7. The stages reported while the request is pending are \<open>imagery\<close>, \<open>filters\<close>,
  \<open>vectorizing\<close> in turn, one per period of the timer, whatever the request and its
  outcome are (\<open>progress_stage_sequence\<close>), and a response clears the timer
  (\<open>timer_cleared_on_response\<close>). A rejection does not: when the server answers with an
  error, the timer stays scheduled and goes on reporting stages.
\<close>

theorem progress_timer_survives_error:
  "timer_active (snd (detectWater example_platform (square 1000) [] True 1
      (Rejected server_error :: detection_result outcome)))
   \<and> reported (snd (detectWater example_platform (square 1000) [] True 1
      (Rejected server_error :: detection_result outcome))) = [''imagery'', ''filters'']
   \<and> reported (interval_callback (snd (detectWater example_platform (square 1000) [] True 1
      (Rejected server_error :: detection_result outcome)))) = [''imagery'', ''filters'', ''vectorizing'']"
proof -
  have "snd (detectWater example_platform (square 1000) [] True 1
            (Rejected server_error :: detection_result outcome)) =
          (detectWater_begin (square 1000) [] True)
            \<lparr>stage := 1, reported := [''imagery'', ''filters'']\<rparr>"
    unfolding detectWater_def reported_pending by (simp add: detectWater_settle_def stages_def)
  then show ?thesis
    by (simp add: interval_callback_def detectWater_begin_def stages_def)
qed


section \<open>Properties of the choice of an area\<close>

lemma handleDetectWater_start_None:
  "handleDetectWater_start E s = None \<longleftrightarrow> snd (handleDetectWater E n out s) = None"
  by (simp add: handleDetectWater_start_def handleDetectWater_def Let_def
        split: option.splits prod.splits)

lemma handleDetectWater_halves:
  assumes "handleDetectWater_start E s = Some s1"
  shows "\<exists>aoi. currentAoi s = Some aoi
    \<and> fst (handleDetectWater E n out s) =
        handleDetectWater_finish
          (fst (detectWater E aoi (prepare_params (advancedParams s)) True n out))
          (fold (\<lambda>stage st. st\<lparr>processingStage := Some stage\<rparr>)
             (reported (snd (detectWater E aoi (prepare_params (advancedParams s)) True n out))) s1)"
proof -
  from assms obtain aoi where a: "currentAoi s = Some aoi"
    by (cases "currentAoi s") (simp_all add: handleDetectWater_start_def)
  with assms have v: "isValid (validateAOI E (Some aoi))"
    by (cases "isValid (validateAOI E (Some aoi))") (simp_all add: handleDetectWater_start_def)
  from assms a v have s1: "s1 = s\<lparr>loading := True, error := None, results := None,
      processingStage := Some ''imagery''\<rparr>"
    by (simp add: handleDetectWater_start_def)
  from a v have "fst (handleDetectWater E n out s) =
        handleDetectWater_finish
          (fst (detectWater E aoi (prepare_params (advancedParams s)) True n out))
          (fold (\<lambda>stage st. st\<lparr>processingStage := Some stage\<rparr>)
             (reported (snd (detectWater E aoi (prepare_params (advancedParams s)) True n out))) s1)"
    unfolding s1 by (simp add: handleDetectWater_def handleDetectWater_finish_def Let_def split: prod.splits)
  with a show ?thesis
    by blast
qed

text \<open>
  C9, as the code has it. After \<open>handleAoiSelect\<close> and after \<open>handleAoiDraw\<close>, the area chosen
  is stored, the other one is \<open>null\<close> (so at most one of the two is set), and both \<open>results\<close>
  and \<open>error\<close> are \<open>null\<close>, whatever state the handler started from; neither the results
  panel nor the error banner is rendered for the state the handler leaves.
\<close>

theorem aoi_choice_resets:
  "selectedAoi (handleAoiSelect aoi s) = aoi \<and> drawnAoi (handleAoiSelect aoi s) = None
   \<and> results (handleAoiSelect aoi s) = None \<and> app_state.error (handleAoiSelect aoi s) = None
   \<and> drawnAoi (handleAoiDraw g s) = g \<and> selectedAoi (handleAoiDraw g s) = None
   \<and> results (handleAoiDraw g s) = None \<and> app_state.error (handleAoiDraw g s) = None
   \<and> (selectedAoi (handleAoiSelect aoi s) = None \<or> drawnAoi (handleAoiSelect aoi s) = None)
   \<and> (selectedAoi (handleAoiDraw g s) = None \<or> drawnAoi (handleAoiDraw g s) = None)
   \<and> results_panel E (handleAoiSelect aoi s) = None \<and> error_banner (handleAoiSelect aoi s) = None
   \<and> results_panel E (handleAoiDraw g s) = None \<and> error_banner (handleAoiDraw g s) = None"
  by (simp add: handleAoiSelect_def handleAoiDraw_def results_panel_def error_banner_def truthy_def)


theorem aoi_choice_resets_witness:
  "selectedAoi (handleAoiSelect (Some example_aoi) finished_state) = Some example_aoi
   \<and> drawnAoi (handleAoiSelect (Some example_aoi) finished_state) = None
   \<and> results (handleAoiSelect (Some example_aoi) finished_state) = None
   \<and> app_state.error (handleAoiSelect (Some example_aoi) finished_state) = None
   \<and> drawnAoi finished_state \<noteq> None \<and> results finished_state \<noteq> None
   \<and> app_state.error finished_state \<noteq> None"
proof -
  note t = aoi_choice_resets [where aoi = "Some example_aoi" and s = finished_state and g = None
      and E = example_platform]
  have f: "drawnAoi finished_state \<noteq> None \<and> results finished_state \<noteq> None
      \<and> app_state.error finished_state \<noteq> None"
    by (simp add: finished_state_def example_state_def initial_state_def)
  from t f show ?thesis
    by simp
qed

text \<open>
  C9 as it is written concludes that a newly chosen area is never displayed beside the
  results of an earlier detection. The handlers do not cancel a request that is pending:
  when an area is chosen while \<open>handleDetectWater\<close> waits, the response that arrives
  afterwards is stored and rendered beside the new area.
\<close>

theorem stale_results_counterexample:
  "handleDetectWater_start example_platform (example_state 1000) = Some pending_state
   \<and> selectedAoi (handleDetectWater_finish (Inr example_result)
        (handleAoiSelect (Some example_aoi) pending_state)) = Some example_aoi
   \<and> drawnAoi (handleDetectWater_finish (Inr example_result)
        (handleAoiSelect (Some example_aoi) pending_state)) = None
   \<and> results (handleDetectWater_finish (Inr example_result)
        (handleAoiSelect (Some example_aoi) pending_state)) = Some example_result
   \<and> results_panel example_platform (handleDetectWater_finish (Inr example_result)
        (handleAoiSelect (Some example_aoi) pending_state)) =
       Some (ResultsPanel example_platform example_result)"
proof -
  have s: "handleDetectWater_start example_platform (example_state 1000) = Some pending_state"
    by (simp add: handleDetectWater_start_def example_state_aoi example_valid pending_state_def)
  have t: "tile_url example_result = None"
    by (simp add: example_result_def)
  have f: "handleDetectWater_finish (Inr example_result)
        (handleAoiSelect (Some example_aoi) pending_state) =
      pending_state\<lparr>selectedAoi := Some example_aoi, drawnAoi := None,
        results := Some example_result, error := None, processingStage := None,
        loading := False\<rparr>"
    by (simp add: handleDetectWater_finish_def after_detection_def handleAoiSelect_def t)
  show ?thesis
    unfolding f using s by (simp add: results_panel_def)
qed


section \<open>Properties of the results panel\<close>

lemma fold_processingStage:
  "fold (\<lambda>stage st. st\<lparr>processingStage := Some stage\<rparr>) xs s =
     s\<lparr>processingStage := (if xs = [] then processingStage s else Some (last xs))\<rparr>"
  by (induction xs arbitrary: s) simp_all

lemma handleDetectWater_fulfilled:
  assumes "currentAoi s = Some aoi" and "isValid (validateAOI E (Some aoi))"
  shows "results (fst (handleDetectWater E n (Fulfilled res) s)) = Some res"
    and "app_state.error (fst (handleDetectWater E n (Fulfilled res) s)) = None"
    and "\<not> loading (fst (handleDetectWater E n (Fulfilled res) s))"
  using assms
  by (simp_all add: handleDetectWater_def Let_def detectWater_def detectWater_settle_def
        after_detection_def fold_processingStage split: prod.splits option.splits)

lemma rendered_metadata:
  "acquisition_date_value (ResultsPanel E res) =
     (case acquisition_date (metadata res) of
        None \<Rightarrow> ''N/A'' | Some t \<Rightarrow> if t = [] then ''N/A'' else t)"
  "water_area_value (ResultsPanel E res) =
     (case water_area_km2 (metadata res) of
        None \<Rightarrow> ''0''
      | Some a \<Rightarrow> if toFixed E (Finite a) 3 = [] then ''0'' else toFixed E (Finite a) 3)
     @ '' km'' @ superscript_two"
  "water_coverage_value (ResultsPanel E res) =
     (case water_percentage (metadata res) of
        None \<Rightarrow> ''0''
      | Some a \<Rightarrow> if toFixed E (Finite a) 2 = [] then ''0'' else toFixed E (Finite a) 2)
     @ ''%''"
  "processing_time_value (ResultsPanel E res) =
     (case processing_time_seconds (metadata res) of
        None \<Rightarrow> [] | Some t \<Rightarrow> String E (Finite t)) @ ''s''"
  by (simp_all add: ResultsPanel_def Let_def or_else_def split: option.splits)

text \<open>
  C6. A response without polygon features is a result like any other: \<open>handleDetectWater\<close>
  stores it in \<open>results\<close> and leaves \<open>error\<close> \<open>null\<close>. The panel renders the acquisition date
  (or \<open>N/A\<close>), the water area with three decimals and the water coverage with two (or 0
  when absent), and the processing time followed by \<open>s\<close>, none of which depends on the
  polygon collection. The feature count is 0 when the collection or its feature list is
  absent, and the length of the list otherwise; the panel shows that count, and the
  download button is disabled exactly when the count is 0.
\<close>

theorem empty_result_is_valid:
  "(snd (handleDetectWater E n (Fulfilled res) s) \<noteq> None \<longrightarrow>
      results (fst (handleDetectWater E n (Fulfilled res) s)) = Some res
      \<and> app_state.error (fst (handleDetectWater E n (Fulfilled res) s)) = None)
   \<and> acquisition_date_value (ResultsPanel E res) =
       (case acquisition_date (metadata res) of
          None \<Rightarrow> ''N/A'' | Some t \<Rightarrow> if t = [] then ''N/A'' else t)
   \<and> water_area_value (ResultsPanel E res) =
       (case water_area_km2 (metadata res) of
          None \<Rightarrow> ''0''
        | Some a \<Rightarrow> if toFixed E (Finite a) 3 = [] then ''0'' else toFixed E (Finite a) 3)
       @ '' km'' @ superscript_two
   \<and> water_coverage_value (ResultsPanel E res) =
       (case water_percentage (metadata res) of
          None \<Rightarrow> ''0''
        | Some a \<Rightarrow> if toFixed E (Finite a) 2 = [] then ''0'' else toFixed E (Finite a) 2)
       @ ''%''
   \<and> processing_time_value (ResultsPanel E res) =
       (case processing_time_seconds (metadata res) of
          None \<Rightarrow> [] | Some t \<Rightarrow> String E (Finite t)) @ ''s''
   \<and> ResultsPanel E (res\<lparr>water_polygons := w\<rparr>) =
       (ResultsPanel E res)
         \<lparr>polygons_detected := featureCount (res\<lparr>water_polygons := w\<rparr>),
          download_disabled := (featureCount (res\<lparr>water_polygons := w\<rparr>) = 0)\<rparr>
   \<and> (water_polygons res = None \<longrightarrow> featureCount res = 0)
   \<and> (\<forall>c. water_polygons res = Some c \<and> features c = None \<longrightarrow> featureCount res = 0)
   \<and> (\<forall>c fs. water_polygons res = Some c \<and> features c = Some fs \<longrightarrow>
          featureCount res = length fs)
   \<and> polygons_detected (ResultsPanel E res) = featureCount res
   \<and> (download_disabled (ResultsPanel E res) \<longleftrightarrow> featureCount res = 0)"
proof -
  have 1: "snd (handleDetectWater E n (Fulfilled res) s) \<noteq> None \<longrightarrow>
      results (fst (handleDetectWater E n (Fulfilled res) s)) = Some res
      \<and> app_state.error (fst (handleDetectWater E n (Fulfilled res) s)) = None"
  proof
    assume sent: "snd (handleDetectWater E n (Fulfilled res) s) \<noteq> None"
    from sent obtain aoi where aoi: "currentAoi s = Some aoi"
      by (cases "currentAoi s") (simp_all add: handleDetectWater_no_aoi)
    with sent have v: "isValid (validateAOI E (Some aoi))"
      by (cases "isValid (validateAOI E (Some aoi))") (simp_all add: handleDetectWater_invalid)
    from handleDetectWater_fulfilled [OF aoi v]
    show "results (fst (handleDetectWater E n (Fulfilled res) s)) = Some res
      \<and> app_state.error (fst (handleDetectWater E n (Fulfilled res) s)) = None"
      by simp
  qed
  have 2: "ResultsPanel E (res\<lparr>water_polygons := w\<rparr>) =
       (ResultsPanel E res)
         \<lparr>polygons_detected := featureCount (res\<lparr>water_polygons := w\<rparr>),
          download_disabled := (featureCount (res\<lparr>water_polygons := w\<rparr>) = 0)\<rparr>"
    by (simp add: ResultsPanel_def Let_def)
  have 3: "water_polygons res = None \<longrightarrow> featureCount res = 0"
    by (simp add: featureCount_def)
  have 4: "\<forall>c. water_polygons res = Some c \<and> features c = None \<longrightarrow> featureCount res = 0"
    by (simp add: featureCount_def)
  have 5: "\<forall>c fs. water_polygons res = Some c \<and> features c = Some fs \<longrightarrow>
          featureCount res = length fs"
    by (simp add: featureCount_def)
  have 6: "polygons_detected (ResultsPanel E res) = featureCount res"
    by (simp add: ResultsPanel_def Let_def)
  have 7: "download_disabled (ResultsPanel E res) \<longleftrightarrow> featureCount res = 0"
    by (simp add: ResultsPanel_def Let_def)
  show ?thesis
    by (intro conjI) (rule 1 rendered_metadata 2 3 4 5 6 7)+
qed

lemma fixed_digits_0_3: "fixed_digits 0 3 = ''0.000''"
  by code_simp

lemma fixed_digits_0_2: "fixed_digits 0 2 = ''0.00''"
  by code_simp

lemma fixed_digits_12_0: "fixed_digits 12 0 = ''12''"
  by code_simp

lemmas example_fixed = fixed_digits_0_3 fixed_digits_0_2 fixed_digits_12_0

theorem empty_result_is_valid_witness:
  "results (fst (handleDetectWater example_platform 2 (Fulfilled example_result) (example_state 1000)))
     = Some example_result
   \<and> app_state.error
       (fst (handleDetectWater example_platform 2 (Fulfilled example_result) (example_state 1000)))
     = None
   \<and> acquisition_date_value (ResultsPanel example_platform example_result) = ''2024-05-01''
   \<and> water_area_value (ResultsPanel example_platform example_result) =
       ''0.000 km'' @ superscript_two
   \<and> water_coverage_value (ResultsPanel example_platform example_result) = ''0.00%''
   \<and> processing_time_value (ResultsPanel example_platform example_result) = ''12s''
   \<and> featureCount example_result = 0
   \<and> featureCount (example_result\<lparr>water_polygons := None\<rparr>) = 0
   \<and> download_disabled (ResultsPanel example_platform example_result)"
proof -
  have sent: "snd (handleDetectWater example_platform 2 (Fulfilled example_result) (example_state 1000))
      \<noteq> None"
    by (simp add: example_call)
  have c: "water_polygons example_result = Some \<lparr>features = Some []\<rparr>
      \<and> features \<lparr>features = Some []\<rparr> = Some []"
    by (simp add: example_result_def)
  have n: "water_polygons (example_result\<lparr>water_polygons := None\<rparr>) = None"
    by simp
  have m: "acquisition_date (metadata example_result) = Some ''2024-05-01''"
    "water_area_km2 (metadata example_result) = Some 0"
    "water_percentage (metadata example_result) = Some 0"
    "processing_time_seconds (metadata example_result) = Some 12"
    by (simp_all add: example_result_def)
  have f: "toFixed example_platform = example_toFixed" "String example_platform = example_String"
    by (simp_all add: example_platform_def)
  note t = empty_result_is_valid [of example_platform 2 example_result "example_state 1000" None]
  note u = empty_result_is_valid [of example_platform 2 "example_result\<lparr>water_polygons := None\<rparr>"
        "example_state 1000" None]
  from t sent have r: "results (fst (handleDetectWater example_platform 2 (Fulfilled example_result)
        (example_state 1000))) = Some example_result
      \<and> app_state.error (fst (handleDetectWater example_platform 2 (Fulfilled example_result)
        (example_state 1000))) = None"
    by blast
  from t have "acquisition_date_value (ResultsPanel example_platform example_result) =
       (case acquisition_date (metadata example_result) of
          None \<Rightarrow> ''N/A'' | Some t \<Rightarrow> if t = [] then ''N/A'' else t)"
    by blast
  then have a: "acquisition_date_value (ResultsPanel example_platform example_result) = ''2024-05-01''"
    by (simp add: m)
  from t have "water_area_value (ResultsPanel example_platform example_result) =
       (case water_area_km2 (metadata example_result) of
          None \<Rightarrow> ''0''
        | Some a \<Rightarrow> if toFixed example_platform (Finite a) 3 = [] then ''0''
                    else toFixed example_platform (Finite a) 3)
       @ '' km'' @ superscript_two"
    by blast
  then have b: "water_area_value (ResultsPanel example_platform example_result) =
       ''0.000 km'' @ superscript_two"
    by (simp add: m f example_fixed)
  from t have "water_coverage_value (ResultsPanel example_platform example_result) =
       (case water_percentage (metadata example_result) of
          None \<Rightarrow> ''0''
        | Some a \<Rightarrow> if toFixed example_platform (Finite a) 2 = [] then ''0''
                    else toFixed example_platform (Finite a) 2)
       @ ''%''"
    by blast
  then have p: "water_coverage_value (ResultsPanel example_platform example_result) = ''0.00%''"
    by (simp add: m f example_fixed)
  from t have "processing_time_value (ResultsPanel example_platform example_result) =
       (case processing_time_seconds (metadata example_result) of
          None \<Rightarrow> [] | Some t \<Rightarrow> String example_platform (Finite t)) @ ''s''"
    by blast
  then have q: "processing_time_value (ResultsPanel example_platform example_result) = ''12s''"
    by (simp add: m f example_fixed)
  from t c have "featureCount example_result = length ([] :: geometry list)"
    by blast
  then have z: "featureCount example_result = 0"
    by simp
  from t z have d: "download_disabled (ResultsPanel example_platform example_result)"
    by blast
  from u n have "featureCount (example_result\<lparr>water_polygons := None\<rparr>) = 0"
    by blast
  with r a b p q z d show ?thesis
    by blast
qed








section \<open>Properties of the pipeline\<close>

lemma automatic_branch:
  "primary_threshold params = None \<Longrightarrow> well_formed layers \<Longrightarrow>
   \<exists>r. runPipeline refine vectorize defaults layers params = Inr r
      \<and> trace r = [Histogram_computed]
      \<and> branch (water_mask r) = automatic
      \<and> threshold (water_mask r) = automatic_threshold (valid_values (primary layers))"
  by (simp add: runPipeline_def select_threshold_def Let_def resolve_def)

text \<open>
  C2. When a manual primary threshold is supplied and the layers are well formed, the
  pipeline returns a result; the run contains no histogram computation, the branch flag
  of the result reads \<open>manual\<close>, and the threshold used, in the result and in the rule that
  built the mask, is the override itself.
\<close>

theorem override_bypass:
  "primary_threshold params = Some t \<Longrightarrow> well_formed layers \<Longrightarrow>
   \<exists>r. runPipeline refine vectorize defaults layers params = Inr r
      \<and> trace r = []
      \<and> branch (water_mask r) = manual
      \<and> threshold (water_mask r) = t
      \<and> primary_used (effective r) = t
      \<and> grid (water_mask r) =
          refine (min_size_used (resolve defaults params t))
            (build_mask layers (resolve defaults params t))"
  by (simp add: runPipeline_def select_threshold_def Let_def resolve_def)

theorem override_bypass_witness:
  "\<exists>r. runPipeline (\<lambda>n m. m) count_water example_defaults example_layers example_override = Inr r
      \<and> trace r = [] \<and> branch (water_mask r) = manual \<and> threshold (water_mask r) = - 15"
proof -
  have p: "primary_threshold example_override = Some (- 15)"
    by (simp add: example_override_def)
  have w: "well_formed example_layers"
    by (simp add: well_formed_def example_layers_def valid_values_def List.map_filter_simps)
  from override_bypass [OF p w, of "\<lambda>n m. m" count_water example_defaults]
  show ?thesis by blast
qed

end
